theory Spec2Isabelle
  imports Complex_Main "HOL-Library.Multiset"
begin

section \<open>Conventions of the embedding\<close>

text \<open>
  The program computes on torch tensors of 32-bit floats. The embedding reads every
  float as a \<^typ>\<open>real\<close>: sums, products and quotients are the exact ones, and the
  special values a float can take (infinities, not-a-number) appear only where the
  source tests for them (the log-probability of an eval-spot). Rounding is outside
  the model.

  A tensor of shape \<open>(2,)\<close> is a pair of reals, a tensor of shape \<open>(k,2)\<close> a list of
  such pairs, and a Python exception is a value of \<open>error\<close> on the left of a sum.
\<close>

datatype error = AssertionError | IndexError | RuntimeError | AttributeError

type_synonym point = "real \<times> real"

definition psub :: "point \<Rightarrow> point \<Rightarrow> point" where
  "psub p q = (fst p - fst q, snd p - snd q)"

definition padd :: "point \<Rightarrow> point \<Rightarrow> point" where
  "padd p q = (fst p + fst q, snd p + snd q)"

definition pmul :: "point \<Rightarrow> point \<Rightarrow> point" where
  "pmul p q = (fst p * fst q, snd p * snd q)"


section \<open>rendering.py: vanilla\_to\_motor\<close>








section \<open>rendering.py: the image\<close>

subsection \<open>check\_bounds, pair\_dist\<close>

text \<open>\<open>imsize\<close> is a pair of Python integers, \<open>H x W\<close>.\<close>

definition point_out :: "int \<times> int \<Rightarrow> point \<Rightarrow> bool" where
  "point_out imsize p =
     (let xt = fst p; yt = snd p;
          x_out = (\<lfloor>xt\<rfloor> < 0 \<or> \<lceil>xt\<rceil> > fst imsize);
          y_out = (\<lfloor>yt\<rfloor> < 0 \<or> \<lceil>yt\<rceil> > snd imsize)
      in x_out \<or> y_out)"

definition check_bounds :: "point list \<Rightarrow> int \<times> int \<Rightarrow> bool list" where
  "check_bounds myt imsize = map (point_out imsize) myt"

definition pair_dist :: "point list \<Rightarrow> real list" where
  "pair_dist D =
     map (\<lambda>(x1, x2). sqrt ((fst x1 - fst x2)\<^sup>2 + (snd x1 - snd x2)\<^sup>2))
       (zip (butlast D) (tl D))"

subsection \<open>Tensor operations the renderer uses\<close>

text \<open>Indexing with a boolean mask, \<open>xs[mask]\<close>.\<close>

definition select :: "bool list \<Rightarrow> 'a list \<Rightarrow> 'a list" where
  "select keep xs = map snd (filter fst (zip keep xs))"

text \<open>\<open>.long()\<close> on a float: truncation towards zero.\<close>

definition long :: "real \<Rightarrow> int" where
  "long x = (if x < 0 then \<lceil>x\<rceil> else \<lfloor>x\<rfloor>)"

text \<open>\<open>torch.unique\<close> of a 1-D tensor: its distinct values, sorted.\<close>

definition torch_unique :: "int list \<Rightarrow> int list" where
  "torch_unique xs = sort (remdups xs)"

text \<open>
  \<open>D.scatter_add(0, index, src)\<close> on a flat tensor: \<open>D[index[j]] += src[j]\<close> for
  every \<open>j\<close>; an index outside the tensor raises.
\<close>

fun scatter_add :: "real list \<Rightarrow> int list \<Rightarrow> real list \<Rightarrow> error + real list" where
  "scatter_add D (i # is) (v # vs) =
     (if i < 0 \<or> int (length D) \<le> i then Inl RuntimeError
      else scatter_add (D[nat i := D ! nat i + v]) is vs)"
| "scatter_add D _ _ = Inr D"

text \<open>
  An image is a 2-D tensor: its shape and its entries in row-major order, which is
  what \<open>D.view(-1)\<close> gives and \<open>D.view(shape)\<close> takes back.
\<close>

record image =
  nrows :: nat
  ncols :: nat
  pix :: "real list"

definition zeros :: "nat \<times> nat \<Rightarrow> image" where
  "zeros imsize =
     \<lparr>nrows = fst imsize, ncols = snd imsize, pix = replicate (fst imsize * snd imsize) 0\<rparr>"

text \<open>
  The module \<open>util.general\<close> is not among the sources. Its three functions are
  parameters: \<open>sub2ind shape row col\<close> is the flat index of one entry (the source
  calls it on index vectors, entry by entry), \<open>fspecial fsize sigma\<close> builds the
  Gaussian kernel, and \<open>imfilter img kernel\<close> convolves.
\<close>

record util_general =
  sub2ind :: "nat \<times> nat \<Rightarrow> int \<Rightarrow> int \<Rightarrow> int"
  fspecial :: "nat \<Rightarrow> real \<Rightarrow> real list list"
  imfilter :: "image \<Rightarrow> real list list \<Rightarrow> image"

text \<open>The flat index of a row-major layout, an instance to run the model on.\<close>

definition row_major :: "nat \<times> nat \<Rightarrow> int \<Rightarrow> int \<Rightarrow> int" where
  "row_major shape r c = r * int (snd shape) + c"

subsection \<open>seqadd\<close>

definition seqadd ::
  "util_general \<Rightarrow> image \<Rightarrow> real list \<Rightarrow> real list \<Rightarrow> real list \<Rightarrow> error + image" where
  "seqadd U D lind_x lind_y inkval =
     (if \<not> (length lind_x = length lind_y \<and> length lind_y = length inkval)
      then Inl AssertionError
      else
        let lind = zip lind_x lind_y;
            out = check_bounds lind (int (nrows D) - 1, int (ncols D) - 1);
            lind_x' = map long (select (map Not out) lind_x);
            lind_y' = map long (select (map Not out) lind_y);
            inkval' = select (map Not out) inkval
        in if length lind_x' = 0 then Inr D
           else
             let shape = (nrows D, ncols D);
                 lind1 = map2 (sub2ind U shape) lind_x' lind_y';
                 lind_unique = torch_unique lind1;
                 inkval_unique =
                   map (\<lambda>i. sum_list (map2 (\<lambda>l v. if l = i then v else 0) lind1 inkval'))
                     lind_unique
             in case scatter_add (pix D) lind_unique inkval_unique of
                  Inl e \<Rightarrow> Inl e
                | Inr D' \<Rightarrow> Inr (D\<lparr>pix := D'\<rparr>))"

subsection \<open>render\_image\<close>

definition space_motor_to_img :: "point list \<Rightarrow> point list" where
  "space_motor_to_img pt = map (\<lambda>p. (- snd p, fst p)) pt"

text \<open>The fields of \<open>parameters\<close> (class \<open>defaultps\<close>, not among the sources) that are read.\<close>

record defaultps =
  imsize :: "nat \<times> nat"
  ink_pp :: real
  ink_max_dist :: real
  ink_a :: real
  ink_b :: real
  ink_ncon :: nat
  fsize :: nat

text \<open>
  \<open>myink\<close> is the 0-dimensional tensor \<open>ink\<close> when one point remains, and a vector
  with one entry per point otherwise. \<open>myink.shape[0]\<close> raises IndexError on the
  former; a product with a vector broadcasts it.
\<close>

datatype inkval = Scalar real | Vec "real list"

fun tsum :: "inkval \<Rightarrow> real" where
  "tsum (Scalar c) = c"
| "tsum (Vec v) = sum_list v"

fun tscale :: "real \<Rightarrow> inkval \<Rightarrow> inkval" where
  "tscale c (Scalar d) = Scalar (c * d)"
| "tscale c (Vec v) = Vec (map (\<lambda>d. c * d) v)"

fun tmul :: "inkval \<Rightarrow> real list \<Rightarrow> real list" where
  "tmul (Scalar c) r = map (\<lambda>d. c * d) r"
| "tmul (Vec v) r = map2 (\<lambda>a b. a * b) v r"

definition bind_err :: "error + 'a \<Rightarrow> ('a \<Rightarrow> error + 'b) \<Rightarrow> error + 'b" where
  "bind_err m f = (case m of Inl e \<Rightarrow> Inl e | Inr x \<Rightarrow> f x)"

definition assert_ink :: "real \<Rightarrow> inkval \<Rightarrow> error + inkval" where
  "assert_ink ink myink =
     (if tsum myink > ink - 1 / 10000 then Inr myink else Inl AssertionError)"

text \<open>
  Lines 233 to 250 of \<open>render_image\<close>: the ink of the points of one trajectory that
  are in bounds. With \<open>max_dist = 0\<close> and two points or more, the float quotient
  \<open>ink/max_dist\<close> is infinite or not a number and every clipped distance is 0, so
  every product and their sum are not a number: both comparisons are false and the
  assertion fails.
\<close>

definition stroke_ink :: "real \<Rightarrow> real \<Rightarrow> point list \<Rightarrow> error + inkval" where
  "stroke_ink ink max_dist myt =
     (if length myt \<noteq> 1 \<and> max_dist = 0 then Inl AssertionError
      else
        let myink =
              (if length myt = 1 then Scalar ink
               else
                 let dist = pair_dist myt;
                     dist = map (\<lambda>d. min d max_dist) dist;
                     dist = take 1 dist @ dist
                 in Vec (map (\<lambda>d. (ink / max_dist) * d) dist));
            sumink = tsum myink
        in if \<bar>sumink\<bar> < 1 / 1000000 then
             (case myink of
                Scalar _ \<Rightarrow> Inl IndexError
              | Vec v \<Rightarrow>
                  let nink = length v
                  in assert_ink ink (Vec (map (\<lambda>d. (ink / real nink) * d) (replicate nink 1))))
           else if sumink < ink then assert_ink ink (tscale (ink / sumink) myink)
           else assert_ink ink myink)"

text \<open>Lines 252 to 268: the ink of each point goes to its four neighbouring pixels.\<close>

definition paint :: "util_general \<Rightarrow> image \<Rightarrow> point list \<Rightarrow> inkval \<Rightarrow> error + image" where
  "paint U pimg myt myink =
     (let x = map fst myt;
          y = map snd myt;
          xfloor = map (\<lambda>v. real_of_int \<lfloor>v\<rfloor>) x;
          yfloor = map (\<lambda>v. real_of_int \<lfloor>v\<rfloor>) y;
          xceil = map (\<lambda>v. real_of_int \<lceil>v\<rceil>) x;
          yceil = map (\<lambda>v. real_of_int \<lceil>v\<rceil>) y;
          x_c_ratio = map2 (\<lambda>a b. a - b) x xfloor;
          y_c_ratio = map2 (\<lambda>a b. a - b) y yfloor;
          x_f_ratio = map (\<lambda>r. 1 - r) x_c_ratio;
          y_f_ratio = map (\<lambda>r. 1 - r) y_c_ratio
      in bind_err (seqadd U pimg xfloor yfloor
                    (map2 (\<lambda>a b. a * b) (tmul myink x_f_ratio) y_f_ratio)) (\<lambda>pimg.
         bind_err (seqadd U pimg xceil yfloor
                    (map2 (\<lambda>a b. a * b) (tmul myink x_c_ratio) y_f_ratio)) (\<lambda>pimg.
         bind_err (seqadd U pimg xfloor yceil
                    (map2 (\<lambda>a b. a * b) (tmul myink x_f_ratio) y_c_ratio)) (\<lambda>pimg.
         seqadd U pimg xceil yceil
                    (map2 (\<lambda>a b. a * b) (tmul myink x_c_ratio) y_c_ratio)))))"

text \<open>
  The body of \<open>for i in range(nsub_total)\<close> on the state \<open>(pimg, ink_off_page)\<close>,
  for the trajectory \<open>traj_img[i]\<close>.
\<close>

definition draw_step ::
  "util_general \<Rightarrow> defaultps \<Rightarrow> point list \<Rightarrow> image \<times> bool \<Rightarrow> error + image \<times> bool" where
  "draw_step U parameters myt st =
     (case st of (pimg, ink_off_page) \<Rightarrow>
        let out = check_bounds myt (int (fst (imsize parameters)), int (snd (imsize parameters)));
            ink_off_page = (if list_ex id out then True else ink_off_page)
        in if list_all id out then Inr (pimg, ink_off_page)
           else
             let myt = select (map Not out) myt
             in bind_err (stroke_ink (ink_pp parameters) (ink_max_dist parameters) myt) (\<lambda>myink.
                bind_err (paint U pimg myt myink) (\<lambda>pimg.
                Inr (pimg, ink_off_page))))"

fun draw_loop ::
  "util_general \<Rightarrow> defaultps \<Rightarrow> point list list \<Rightarrow> image \<times> bool \<Rightarrow> error + image \<times> bool" where
  "draw_loop U parameters [] st = Inr st"
| "draw_loop U parameters (myt # rest) st =
     bind_err (draw_step U parameters myt st) (draw_loop U parameters rest)"

definition map_pix :: "(real \<Rightarrow> real) \<Rightarrow> image \<Rightarrow> image" where
  "map_pix f D = D\<lparr>pix := map f (pix D)\<rparr>"

definition H_broaden :: "defaultps \<Rightarrow> real list list" where
  "H_broaden parameters =
     (let a = ink_a parameters; b = ink_b parameters
      in map (map (\<lambda>h. b * h))
           [[a / 12, a / 6, a / 12], [a / 6, 1 - a, a / 6], [a / 12, a / 6, a / 12]])"

text \<open>
  Lines 270 to 301: broadening, truncation, the Gaussian blur when \<open>blur_sigma > 0\<close>,
  and the final truncation to \<open>[0,1]\<close>.
\<close>

definition ink_map :: "util_general \<Rightarrow> defaultps \<Rightarrow> real \<Rightarrow> image \<Rightarrow> image" where
  "ink_map U parameters blur_sigma pimg =
     (let pimg = ((\<lambda>D. imfilter U D (H_broaden parameters)) ^^ ink_ncon parameters) pimg;
          pimg = map_pix (\<lambda>p. min p 1) pimg;
          pimg =
            (if blur_sigma > 0 then
               let H_gaussian = fspecial U (fsize parameters) blur_sigma;
                   pimg = imfilter U pimg H_gaussian
               in imfilter U pimg H_gaussian
             else pimg);
          pimg = map_pix (\<lambda>p. min p 1) pimg
      in map_pix (\<lambda>p. max p 0) pimg)"

text \<open>\<open>cell_traj[0].device\<close> raises IndexError on an empty \<open>cell_traj\<close>.\<close>

definition render_image ::
  "util_general \<Rightarrow> point list list \<Rightarrow> real \<Rightarrow> real \<Rightarrow> defaultps \<Rightarrow> error + image \<times> bool" where
  "render_image U cell_traj epsilon blur_sigma parameters =
     (if cell_traj = [] then Inl IndexError
      else
        let traj_img = map space_motor_to_img cell_traj;
            pimg = zeros (imsize parameters)
        in bind_err (draw_loop U parameters traj_img (pimg, False)) (\<lambda>(pimg, ink_off_page).
             let pimg = ink_map U parameters blur_sigma pimg;
                 pimg = map_pix (\<lambda>p. (1 - epsilon) * p + epsilon * (1 - p)) pimg
             in Inr (pimg, ink_off_page)))"

section \<open>rendering.py: apply\_warp\<close>

text \<open>
  \<open>torch.cat\<close> along the first dimension of a list of \<open>(nsub,ncpt,2)\<close> tensors: it
  raises on an empty list and on tensors whose other dimensions differ.
\<close>

definition torch_cat :: "point list list list \<Rightarrow> error + point list list" where
  "torch_cat ts =
     (if ts = [] then Inl RuntimeError
      else if \<not> list_all (\<lambda>t. length t = length (hd (concat ts))) (concat ts)
      then Inl RuntimeError
      else Inr (concat ts))"

text \<open>
  Modelled from the spec: \<open>util.stroke.com_char\<close> is not among the sources. The spec
  has it compute the character's center of mass across all concatenated trajectory
  points: the mean of the points, per axis.
\<close>

definition com_char :: "point list list \<Rightarrow> point" where
  "com_char cell_traj =
     (let pts = concat cell_traj; n = real (length pts)
      in (sum_list (map fst pts) / n, sum_list (map snd pts) / n))"

text \<open>
  A \<open>(4,)\<close> tensor is read through its two halves only: it is the pair
  \<open>(A[:2], A[2:])\<close>.
\<close>

type_synonym affine = "point \<times> point"

text \<open>
  Modelled from the spec: \<open>util.stroke.affine_warp\<close> is not among the sources. The
  spec has the transform map a point to \<open>B[:2]*point + B[2:]\<close>, independently for
  every point of the stroke.
\<close>

definition affine_warp :: "point list list \<Rightarrow> affine \<Rightarrow> point list list" where
  "affine_warp stk B = map (map (\<lambda>p. padd (pmul (fst B) p) (snd B))) stk"

definition apply_warp :: "point list list list \<Rightarrow> affine \<Rightarrow> error + point list list list" where
  "apply_warp motor_unwarped A =
     bind_err (torch_cat motor_unwarped) (\<lambda>cell_traj.
       let com = com_char cell_traj;
           B = (fst A, psub (snd A) (pmul (psub (fst A) (1, 1)) com))
       in Inr (map (\<lambda>stk. affine_warp stk B) motor_unwarped))"

section \<open>relation.py\<close>

subsection \<open>Relations and their tokens\<close>

text \<open>
  Of the library \<open>lib\<close> (not among the sources) the constructors read
  \<open>lib.rel['sigma_x']\<close>, \<open>lib.rel['sigma_y']\<close>, \<open>lib.ncpt\<close> and
  \<open>lib.tokenvar['sigma_attach']\<close>.
\<close>

record library =
  rel_sigma_x :: real
  rel_sigma_y :: real
  lib_ncpt :: nat
  tokenvar_sigma_attach :: real

text \<open>
  The three concrete classes, each with the attributes its constructor sets; the last
  component is the diagonal of \<open>loc_Cov\<close>.
\<close>

datatype relation =
    RelationIndependent string point "nat \<times> nat" "real \<times> real"
  | RelationAttach string int "real \<times> real"
  | RelationAttachAlong string int int real nat real "real \<times> real"

fun category :: "relation \<Rightarrow> string" where
  "category (RelationIndependent c _ _ _) = c"
| "category (RelationAttach c _ _) = c"
| "category (RelationAttachAlong c _ _ _ _ _ _) = c"

fun attach_ix :: "relation \<Rightarrow> int option" where
  "attach_ix (RelationIndependent _ _ _ _) = None"
| "attach_ix (RelationAttach _ ix _) = Some ix"
| "attach_ix (RelationAttachAlong _ ix _ _ _ _ _) = Some ix"

definition categories_allowed :: "string list" where
  "categories_allowed = [''unihist'', ''start'', ''end'', ''mid'']"

text \<open>\<open>Relation.__init__\<close>: the category and the diagonal of \<open>loc_Cov\<close>.\<close>

definition Relation_init :: "string \<Rightarrow> library \<Rightarrow> error + string \<times> real \<times> real" where
  "Relation_init c lib =
     (if c \<notin> set categories_allowed then Inl AssertionError
      else Inr (c, rel_sigma_x lib, rel_sigma_y lib))"

definition RelationIndependent_init ::
  "string \<Rightarrow> point \<Rightarrow> nat \<times> nat \<Rightarrow> library \<Rightarrow> error + relation" where
  "RelationIndependent_init c gpos imsz lib =
     bind_err (Relation_init c lib) (\<lambda>(c, cov).
       if c \<noteq> ''unihist'' then Inl AssertionError
       else Inr (RelationIndependent c gpos imsz cov))"

definition RelationAttach_init :: "string \<Rightarrow> int \<Rightarrow> library \<Rightarrow> error + relation" where
  "RelationAttach_init c ix lib =
     bind_err (Relation_init c lib) (\<lambda>(c, cov).
       if c \<notin> set [''start'', ''end'', ''mid''] then Inl AssertionError
       else Inr (RelationAttach c ix cov))"

definition RelationAttachAlong_init ::
  "string \<Rightarrow> int \<Rightarrow> int \<Rightarrow> real \<Rightarrow> library \<Rightarrow> error + relation" where
  "RelationAttachAlong_init c ix subix eval_spot lib =
     bind_err (RelationAttach_init c ix lib) (\<lambda>r.
       if c \<noteq> ''mid'' then Inl AssertionError
       else
         (case r of
            RelationAttach c ix cov \<Rightarrow>
              Inr (RelationAttachAlong c ix subix eval_spot (lib_ncpt lib)
                     (tokenvar_sigma_attach lib) cov)
          | _ \<Rightarrow> Inl AttributeError))"

text \<open>
  A token holds its relation and, for the category \<open>mid\<close>, the attribute
  \<open>eval_spot_token\<close>; \<open>None\<close> is the attribute missing.
\<close>

datatype relation_token = RelationToken (rel: relation) (eval_spot_token: "real option")

text \<open>\<open>RelationToken.__init__(rel, **kwargs)\<close>; the keyword arguments as pairs.\<close>

definition RelationToken_init :: "relation \<Rightarrow> (string \<times> real) list \<Rightarrow> error + relation_token" where
  "RelationToken_init r kwargs =
     (if category r \<in> set [''unihist'', ''start'', ''end''] then
        (if kwargs = [] then Inr (RelationToken r None) else Inl AssertionError)
      else
        (if set (map fst kwargs) = {''eval_spot_token''}
         then Inr (RelationToken r (map_of kwargs ''eval_spot_token''))
         else Inl AssertionError))"

subsection \<open>get\_attach\_point\<close>

text \<open>Of a \<open>PartToken\<close> (not among the sources) the attributes that are read.\<close>

record part_token =
  part_motor :: "point list list"
  part_motor_spline :: "point list list"

text \<open>Python indexing \<open>xs[i]\<close>: a negative index counts from the end.\<close>

definition py_index :: "'a list \<Rightarrow> int \<Rightarrow> error + 'a" where
  "py_index xs i =
     (if 0 \<le> i \<and> i < int (length xs) then Inr (xs ! nat i)
      else if i < 0 \<and> - int (length xs) \<le> i then Inr (xs ! nat (int (length xs) + i))
      else Inl IndexError)"

text \<open>
  \<open>torch.distributions.normal.Normal\<close> and the module \<open>splines\<close> are not among the
  sources. A distribution is its two methods that are called; the constructor
  \<open>Normal\<close>, \<open>bspline_gen_s\<close> (which returns \<open>(s, lb, ub)\<close>) and \<open>bspline_eval\<close> (its
  first result, squeezed to a point) are parameters.
\<close>

record normal =
  log_prob :: "real \<Rightarrow> real"
  cdf :: "real \<Rightarrow> real"

record env =
  Normal :: "real \<Rightarrow> real \<Rightarrow> normal"
  bspline_gen_s :: "nat \<Rightarrow> nat \<Rightarrow> real list \<times> real \<times> real"
  bspline_eval :: "real \<Rightarrow> point list \<Rightarrow> point"

definition get_attach_point ::
  "env \<Rightarrow> relation_token \<Rightarrow> part_token list \<Rightarrow> error + point" where
  "get_attach_point E tok prev_parts =
     (if category (rel tok) = ''unihist'' then
        (case rel tok of
           RelationIndependent _ gpos _ _ \<Rightarrow> Inr gpos
         | _ \<Rightarrow> Inl AttributeError)
      else
        (case attach_ix (rel tok) of
           None \<Rightarrow> Inl AttributeError
         | Some ix \<Rightarrow>
             bind_err (py_index prev_parts ix) (\<lambda>prev.
               if category (rel tok) = ''start'' then
                 bind_err (py_index (part_motor prev) 0) (\<lambda>subtraj. py_index subtraj 0)
               else if category (rel tok) = ''end'' then
                 bind_err (py_index (part_motor prev) (- 1)) (\<lambda>subtraj. py_index subtraj (- 1))
               else if category (rel tok) \<noteq> ''mid'' then Inl AssertionError
               else
                 (case rel tok of
                    RelationAttachAlong _ _ subix _ _ _ _ \<Rightarrow>
                      bind_err (py_index (part_motor_spline prev) subix) (\<lambda>bspline.
                        case eval_spot_token tok of
                          None \<Rightarrow> Inl AttributeError
                        | Some t \<Rightarrow> Inr (bspline_eval E t bspline))
                  | _ \<Rightarrow> Inl AttributeError))))"

subsection \<open>The eval-spot of a \<open>mid\<close> relation\<close>

text \<open>
  A log-probability is a float that the source compares with \<open>-inf\<close>: it is a real or
  one of the three special values. \<open>torch.log\<close> is \<open>-inf\<close> at 0 and not a number below,
  and the difference follows the float rules.
\<close>

datatype logprob = NInf | Fin real | PInf | NaN

definition torch_log :: "real \<Rightarrow> logprob" where
  "torch_log p = (if p > 0 then Fin (ln p) else if p = 0 then NInf else NaN)"

fun lp_sub :: "logprob \<Rightarrow> logprob \<Rightarrow> logprob" where
  "lp_sub (Fin a) (Fin b) = Fin (a - b)"
| "lp_sub NaN _ = NaN"
| "lp_sub _ NaN = NaN"
| "lp_sub PInf PInf = NaN"
| "lp_sub NInf NInf = NaN"
| "lp_sub PInf _ = PInf"
| "lp_sub NInf _ = NInf"
| "lp_sub (Fin a) PInf = NInf"
| "lp_sub (Fin a) NInf = PInf"

definition score_eval_spot_token :: "env \<Rightarrow> real \<Rightarrow> normal \<Rightarrow> nat \<Rightarrow> logprob" where
  "score_eval_spot_token E tok eval_spot_dist n =
     (case bspline_gen_s E n 1 of
        (_, lb, ub) \<Rightarrow>
          if tok < lb \<or> tok > ub then NInf
          else
            let ll = Fin (log_prob eval_spot_dist tok);
                p_within = cdf eval_spot_dist ub - cdf eval_spot_dist lb
            in lp_sub ll (torch_log p_within))"

text \<open>
  \<open>eval_spot_dist.sample()\<close> is random. The values its successive calls return are
  the sequence \<open>draws\<close>, and the loop of \<open>sample_eval_spot_token\<close> reads them from
  position \<open>k\<close> on; the loop has no bound, so it is a partial function and \<open>None\<close> is
  the loop running forever.
\<close>

partial_function (option) sample_loop ::
  "env \<Rightarrow> normal \<Rightarrow> nat \<Rightarrow> (nat \<Rightarrow> real) \<Rightarrow> nat \<Rightarrow> real option" where
  "sample_loop E eval_spot_dist n draws k =
     (let tok = draws k;
          ll = score_eval_spot_token E tok eval_spot_dist n
      in if ll = NInf then sample_loop E eval_spot_dist n draws (Suc k) else Some tok)"

definition sample_eval_spot_token :: "env \<Rightarrow> normal \<Rightarrow> nat \<Rightarrow> (nat \<Rightarrow> real) \<Rightarrow> real option" where
  "sample_eval_spot_token E eval_spot_dist n draws = sample_loop E eval_spot_dist n draws 0"

text \<open>
  \<open>sample_token\<close> and \<open>score_token\<close>: \<open>RelationAttachAlong\<close> overrides what the other
  classes inherit from \<open>Relation\<close>.
\<close>

definition sample_token ::
  "env \<Rightarrow> relation \<Rightarrow> (nat \<Rightarrow> real) \<Rightarrow> (error + relation_token) option" where
  "sample_token E r draws =
     (case r of
        RelationAttachAlong _ _ _ eval_spot n sigma_attach _ \<Rightarrow>
          (case sample_eval_spot_token E (Normal E eval_spot sigma_attach) n draws of
             None \<Rightarrow> None
           | Some t \<Rightarrow> Some (RelationToken_init r [(''eval_spot_token'', t)]))
      | _ \<Rightarrow> Some (RelationToken_init r []))"

definition score_token :: "env \<Rightarrow> relation \<Rightarrow> relation_token \<Rightarrow> error + logprob" where
  "score_token E r token =
     (case r of
        RelationAttachAlong _ _ _ eval_spot n sigma_attach _ \<Rightarrow>
          (case eval_spot_token token of
             None \<Rightarrow> Inl AssertionError
           | Some t \<Rightarrow>
               Inr (score_eval_spot_token E t (Normal E eval_spot sigma_attach) n))
      | _ \<Rightarrow> Inr (Fin 0))"

section \<open>Concrete parameters to run the model on\<close>

text \<open>
  A row-major index with filters that leave the image as it is, and a 2 by 2 image
  with the ink constants of the library's defaults.
\<close>

definition example_util :: util_general where
  "example_util = \<lparr>sub2ind = row_major, fspecial = (\<lambda>n s. []), imfilter = (\<lambda>D k. D)\<rparr>"

definition example_ps :: defaultps where
  "example_ps =
     \<lparr>imsize = (2, 2), ink_pp = 2, ink_max_dist = 2, ink_a = 1 / 2, ink_b = 6,
      ink_ncon = 2, fsize = 11\<rparr>"

text \<open>
  A library, and an environment for the relations: the bounds \<open>lb = 2\<close> and
  \<open>ub = nland + 1\<close> of a spline with \<open>nland\<close> control points, a spline evaluation that
  stays at the first control point, and a distribution with the log-density of the
  normal law and a piecewise linear function in the place of its distribution function.
\<close>

definition example_lib :: library where
  "example_lib =
     \<lparr>rel_sigma_x = 1, rel_sigma_y = 1, lib_ncpt = 5, tokenvar_sigma_attach = 1\<rparr>"

definition example_env :: env where
  "example_env =
     \<lparr>Normal = (\<lambda>mu sigma.
        \<lparr>log_prob = (\<lambda>x. - ((x - mu)\<^sup>2) / (2 * sigma\<^sup>2) - ln sigma - ln (sqrt (2 * pi))),
         cdf = (\<lambda>x. max 0 (min 1 ((x - mu) / (4 * sigma) + 1 / 2)))\<rparr>),
      bspline_gen_s = (\<lambda>nland neval. ([2], 2, real nland + 1)),
      bspline_eval = (\<lambda>t P. hd P)\<rparr>"

section \<open>The motor trajectory starts at \<open>first_pos\<close> and has no gap\<close>










section \<open>The blend with uniform noise\<close>

lemma ceiling_half: "\<lceil>1 / 2 :: real\<rceil> = 1"
  by (rule ceiling_unique) simp_all

lemmas render_defs =
  render_image_def space_motor_to_img_def zeros_def draw_step_def check_bounds_def
  point_out_def bind_err_def select_def stroke_ink_def assert_ink_def paint_def seqadd_def
  Let_def long_def row_major_def torch_unique_def ink_map_def map_pix_def

lemma ink_map_range: "\<forall>p\<in>set (pix (ink_map U P blur_sigma D)). 0 \<le> p \<and> p \<le> 1"
  by (auto simp: ink_map_def map_pix_def Let_def)

lemma example_render_half:
  "render_image example_util [[(1 / 2, - 1 / 2)]] (1 / 2) 0 example_ps
     = Inr (\<lparr>nrows = 2, ncols = 2, pix = [1 / 2, 1 / 2, 1 / 2, 1 / 2]\<rparr>, False)"
  by (simp add: render_defs example_util_def example_ps_def ceiling_half eval_nat_numeral)

text \<open>
  C7. Whenever \<open>render_image\<close> returns, its image is the ink map (the drawn image
  after broadening, blur and truncation to \<open>[0,1]\<close>) with every pixel \<open>p\<close> replaced by
  \<open>(1-epsilon)*p + epsilon*(1-p)\<close>. For \<open>epsilon = 0\<close> it is the ink map itself, and
  for \<open>epsilon = 1/2\<close> every pixel is \<open>1/2\<close>.
\<close>

theorem render_image_blend:
  assumes "render_image U cell_traj epsilon blur_sigma P = Inr (pimg, flag)"
  shows "\<exists>D. draw_loop U P (map space_motor_to_img cell_traj) (zeros (imsize P), False) = Inr (D, flag) \<and>
           pix pimg = map (\<lambda>p. (1 - epsilon) * p + epsilon * (1 - p)) (pix (ink_map U P blur_sigma D)) \<and>
           (\<forall>p\<in>set (pix (ink_map U P blur_sigma D)). 0 \<le> p \<and> p \<le> 1) \<and>
           (epsilon = 0 \<longrightarrow> pimg = ink_map U P blur_sigma D) \<and>
           (epsilon = 1 / 2 \<longrightarrow> (\<forall>p\<in>set (pix pimg). p = 1 / 2))"
proof -
  from assms obtain D where
    loop: "draw_loop U P (map space_motor_to_img cell_traj) (zeros (imsize P), False) = Inr (D, flag)"
    and out: "pimg = map_pix (\<lambda>p. (1 - epsilon) * p + epsilon * (1 - p)) (ink_map U P blur_sigma D)"
    by (auto simp: render_image_def bind_err_def Let_def split: if_splits sum.splits prod.splits)
  have a: "pix pimg = map (\<lambda>p. (1 - epsilon) * p + epsilon * (1 - p)) (pix (ink_map U P blur_sigma D))"
    using out by (simp add: map_pix_def)
  have b: "epsilon = 0 \<longrightarrow> pimg = ink_map U P blur_sigma D"
    using out by (simp add: map_pix_def)
  have c: "epsilon = 1 / 2 \<longrightarrow> (\<forall>p\<in>set (pix pimg). p = 1 / 2)"
    using a by (auto simp: field_simps)
  from loop a b c ink_map_range show ?thesis by blast
qed

theorem render_image_blend_witness:
  "render_image example_util [[(1 / 2, - 1 / 2)]] (1 / 2) 0 example_ps
     = Inr (\<lparr>nrows = 2, ncols = 2, pix = [1 / 2, 1 / 2, 1 / 2, 1 / 2]\<rparr>, False) \<and>
   (\<exists>D. draw_loop example_util example_ps (map space_motor_to_img [[(1 / 2, - 1 / 2)]])
          (zeros (imsize example_ps), False) = Inr (D, False) \<and>
        [1 / 2, 1 / 2, 1 / 2, 1 / 2]
          = map (\<lambda>p. (1 - 1 / 2) * p + 1 / 2 * (1 - p)) (pix (ink_map example_util example_ps 0 D)))"
proof -
  from render_image_blend [OF example_render_half] obtain D where
    "draw_loop example_util example_ps (map space_motor_to_img [[(1 / 2, - 1 / 2)]])
       (zeros (imsize example_ps), False) = Inr (D, False)"
    "pix \<lparr>nrows = 2, ncols = 2, pix = [1 / 2, 1 / 2, 1 / 2, 1 / 2 :: real]\<rparr>
       = map (\<lambda>p. (1 - 1 / 2) * p + 1 / 2 * (1 - p)) (pix (ink_map example_util example_ps 0 D))"
    by blast
  then have "\<exists>D. draw_loop example_util example_ps (map space_motor_to_img [[(1 / 2, - 1 / 2)]])
          (zeros (imsize example_ps), False) = Inr (D, False) \<and>
        [1 / 2, 1 / 2, 1 / 2, 1 / 2]
          = map (\<lambda>p. (1 - 1 / 2) * p + 1 / 2 * (1 - p)) (pix (ink_map example_util example_ps 0 D))"
    by (intro exI[of _ D]) simp
  with example_render_half show ?thesis by blast
qed

section \<open>The ink of a trajectory\<close>

lemma tsum_tscale: "tsum (tscale c m) = c * tsum m"
  by (cases m) (simp_all add: sum_list_const_mult)



lemma assert_ink_Inr: "assert_ink ink m = Inr m' \<Longrightarrow> m' = m \<and> ink - 1 / 10000 < tsum m"
  by (auto simp: assert_ink_def split: if_splits)



text \<open>The trajectory handed to \<open>stroke_ink\<close> keeps at least one point.\<close>

lemma draw_step_kept_nonempty:
  "\<not> list_all id (check_bounds myt b) \<Longrightarrow> select (map Not (check_bounds myt b)) myt \<noteq> []"
  by (induction myt) (auto simp: select_def check_bounds_def)




section \<open>Points out of bounds\<close>

lemma draw_step_eq:
  "draw_step U P t (D0, f0) =
     (if \<forall>p\<in>set t. point_out (int (fst (imsize P)), int (snd (imsize P))) p
      then Inr (D0, f0 \<or> t \<noteq> [])
      else
        bind_err (stroke_ink (ink_pp P) (ink_max_dist P)
                    (select (map Not (check_bounds t (int (fst (imsize P)), int (snd (imsize P))))) t))
          (\<lambda>myink.
        bind_err (paint U D0
                    (select (map Not (check_bounds t (int (fst (imsize P)), int (snd (imsize P))))) t) myink)
          (\<lambda>D. Inr (D, f0 \<or> (\<exists>p\<in>set t. point_out (int (fst (imsize P)), int (snd (imsize P))) p)))))"
  by (cases t) (auto simp: draw_step_def Let_def check_bounds_def list_all_iff list_ex_iff)

lemma draw_step_flag:
  assumes "draw_step U P t (D0, f0) = Inr (D, f)"
  shows "f = (f0 \<or> (\<exists>p\<in>set t. point_out (int (fst (imsize P)), int (snd (imsize P))) p))"
  using assms
  by (cases t) (auto simp: draw_step_eq bind_err_def split: if_splits sum.splits)

lemma draw_step_any_flag:
  assumes "draw_step U P t (D0, f0) = Inr (D, f)"
  shows "\<exists>f'. draw_step U P t (D0, g0) = Inr (D, f')"
  using assms
  by (auto simp: draw_step_eq bind_err_def split: if_splits sum.splits)

lemma draw_step_skip:
  assumes "\<forall>p\<in>set t. point_out (int (fst (imsize P)), int (snd (imsize P))) p"
  shows "draw_step U P t (D0, f0) = Inr (D0, f0 \<or> t \<noteq> [])"
  using assms by (simp add: draw_step_eq)

lemma draw_loop_flag:
  "draw_loop U P ts (D0, f0) = Inr (D, f) \<Longrightarrow>
   f = (f0 \<or> (\<exists>t\<in>set ts. \<exists>p\<in>set t. point_out (int (fst (imsize P)), int (snd (imsize P))) p))"
proof (induction ts arbitrary: D0 f0)
  case Nil
  then show ?case by simp
next
  case (Cons t ts)
  from Cons.prems obtain D1 f1 where
    s: "draw_step U P t (D0, f0) = Inr (D1, f1)" and l: "draw_loop U P ts (D1, f1) = Inr (D, f)"
    by (auto simp: bind_err_def split: sum.splits)
  from draw_step_flag[OF s] Cons.IH[OF l] show ?case by auto
qed

lemma draw_loop_skip:
  "draw_loop U P ts (D0, f0) = Inr (D, f) \<Longrightarrow>
   \<exists>f'. draw_loop U P
          (filter (\<lambda>t. \<not> (\<forall>p\<in>set t. point_out (int (fst (imsize P)), int (snd (imsize P))) p)) ts)
          (D0, g0) = Inr (D, f')"
proof (induction ts arbitrary: D0 f0 g0)
  case Nil
  then show ?case by simp
next
  case (Cons t ts)
  let ?b = "(int (fst (imsize P)), int (snd (imsize P)))"
  from Cons.prems obtain D1 f1 where
    s: "draw_step U P t (D0, f0) = Inr (D1, f1)" and l: "draw_loop U P ts (D1, f1) = Inr (D, f)"
    by (auto simp: bind_err_def split: sum.splits)
  show ?case
  proof (cases "\<forall>p\<in>set t. point_out ?b p")
    case True
    with s have "D1 = D0" by (simp add: draw_step_skip)
    with Cons.IH[OF l, of g0] True show ?thesis by simp
  next
    case False
    from draw_step_any_flag[OF s, of g0] obtain g1 where
      "draw_step U P t (D0, g0) = Inr (D1, g1)" by blast
    with Cons.IH[OF l, of g1] False show ?thesis by (simp add: bind_err_def)
  qed
qed


lemma point_out_iff:
  "point_out b p \<longleftrightarrow> \<lfloor>fst p\<rfloor> < 0 \<or> \<lceil>fst p\<rceil> > fst b \<or> \<lfloor>snd p\<rfloor> < 0 \<or> \<lceil>snd p\<rceil> > snd b"
  by (auto simp: point_out_def Let_def)

lemma example_render_off_page:
  "render_image example_util [[(1 / 2, - 1 / 2)], [(5, 5)]] (1 / 2) 0 example_ps
     = Inr (\<lparr>nrows = 2, ncols = 2, pix = [1 / 2, 1 / 2, 1 / 2, 1 / 2]\<rparr>, True)"
  by (simp add: render_defs example_util_def example_ps_def ceiling_half eval_nat_numeral)

text \<open>
  C3. Whenever \<open>render_image\<close> returns, its flag says whether some point of some
  trajectory (in image space) has a floor below 0 or a ceiling above the image
  dimension on one of the axes. The trajectories all of whose points are such add
  nothing: the image is the one rendered from the remaining trajectories, and the
  rendering of the blank image when none remains. In particular the flag is false
  when every point of every trajectory is in bounds.
\<close>

theorem render_image_bounds:
  assumes "render_image U cell_traj epsilon blur_sigma P = Inr (pimg, flag)"
  shows "flag = (\<exists>t\<in>set cell_traj. \<exists>p\<in>set (space_motor_to_img t).
                  \<lfloor>fst p\<rfloor> < 0 \<or> \<lceil>fst p\<rceil> > int (fst (imsize P)) \<or>
                  \<lfloor>snd p\<rfloor> < 0 \<or> \<lceil>snd p\<rceil> > int (snd (imsize P))) \<and>
         (\<forall>kept. kept = filter (\<lambda>t. \<not> (\<forall>p\<in>set (space_motor_to_img t).
                                  \<lfloor>fst p\<rfloor> < 0 \<or> \<lceil>fst p\<rceil> > int (fst (imsize P)) \<or>
                                  \<lfloor>snd p\<rfloor> < 0 \<or> \<lceil>snd p\<rceil> > int (snd (imsize P)))) cell_traj \<longrightarrow>
            (if kept = []
             then pimg = map_pix (\<lambda>p. (1 - epsilon) * p + epsilon * (1 - p))
                           (ink_map U P blur_sigma (zeros (imsize P)))
             else \<exists>flag'. render_image U kept epsilon blur_sigma P = Inr (pimg, flag')))"
proof -
  let ?b = "(int (fst (imsize P)), int (snd (imsize P)))"
  let ?blend = "\<lambda>D. map_pix (\<lambda>p. (1 - epsilon) * p + epsilon * (1 - p)) (ink_map U P blur_sigma D)"
  let ?keep = "\<lambda>t. \<not> (\<forall>p\<in>set t. \<lfloor>fst p\<rfloor> < 0 \<or> \<lceil>fst p\<rceil> > int (fst (imsize P)) \<or>
                                  \<lfloor>snd p\<rfloor> < 0 \<or> \<lceil>snd p\<rceil> > int (snd (imsize P)))"
  have po: "point_out ?b = (\<lambda>p. \<lfloor>fst p\<rfloor> < 0 \<or> \<lceil>fst p\<rceil> > int (fst (imsize P)) \<or>
                                  \<lfloor>snd p\<rfloor> < 0 \<or> \<lceil>snd p\<rceil> > int (snd (imsize P)))"
    by (rule ext) (simp only: point_out_iff fst_conv snd_conv)
  from assms obtain D where
    loop: "draw_loop U P (map space_motor_to_img cell_traj) (zeros (imsize P), False) = Inr (D, flag)"
    and out: "pimg = ?blend D"
    by (auto simp: render_image_def bind_err_def Let_def split: if_splits sum.splits prod.splits)
  have flag: "flag = (\<exists>t\<in>set cell_traj. \<exists>p\<in>set (space_motor_to_img t).
                  \<lfloor>fst p\<rfloor> < 0 \<or> \<lceil>fst p\<rceil> > int (fst (imsize P)) \<or>
                  \<lfloor>snd p\<rfloor> < 0 \<or> \<lceil>snd p\<rceil> > int (snd (imsize P)))"
    using draw_loop_flag[OF loop] unfolding po by simp
  from draw_loop_skip[OF loop, of False, unfolded po] obtain f' where
    "draw_loop U P (filter ?keep (map space_motor_to_img cell_traj)) (zeros (imsize P), False) = Inr (D, f')"
    by blast
  then have kept: "draw_loop U P (map space_motor_to_img (filter (\<lambda>t. ?keep (space_motor_to_img t)) cell_traj))
       (zeros (imsize P), False) = Inr (D, f')"
    by (simp add: filter_map comp_def)
  let ?kept = "filter (\<lambda>t. ?keep (space_motor_to_img t)) cell_traj"
  have "if ?kept = [] then pimg = ?blend (zeros (imsize P))
        else \<exists>flag'. render_image U ?kept epsilon blur_sigma P = Inr (pimg, flag')"
  proof (cases "?kept = []")
    case True
    with kept have "D = zeros (imsize P)" by simp
    with out True show ?thesis by simp
  next
    case False
    have "render_image U ?kept epsilon blur_sigma P = Inr (pimg, f')"
      using False kept out by (simp add: render_image_def bind_err_def Let_def)
    with False show ?thesis by auto
  qed
  with flag show ?thesis by blast
qed

theorem render_image_bounds_witness:
  "render_image example_util [[(1 / 2, - 1 / 2)], [(5, 5)]] (1 / 2) 0 example_ps
     = Inr (\<lparr>nrows = 2, ncols = 2, pix = [1 / 2, 1 / 2, 1 / 2, 1 / 2]\<rparr>, True) \<and>
   (\<exists>flag'. render_image example_util [[(1 / 2, - 1 / 2)]] (1 / 2) 0 example_ps
     = Inr (\<lparr>nrows = 2, ncols = 2, pix = [1 / 2, 1 / 2, 1 / 2, 1 / 2]\<rparr>, flag'))"
  using example_render_off_page render_image_bounds [OF example_render_off_page]
  by (simp add: space_motor_to_img_def example_ps_def ceiling_half)

section \<open>seqadd sums what falls on a pixel, in any order\<close>












section \<open>Ink lost at the far edge\<close>















section \<open>The warp about the center of mass\<close>

lemma anchored_at_com:
  "padd (pmul a p) (psub t (pmul (psub a (1, 1)) com)) = padd (padd com (pmul a (psub p com))) t"
  by (simp add: padd_def pmul_def psub_def algebra_simps)

lemma com_fixed:
  "padd (pmul a com) (psub (0, 0) (pmul (psub a (1, 1)) com)) = com"
  by (simp add: padd_def pmul_def psub_def algebra_simps)

lemma example_warp:
  "apply_warp [[[(0, 0), (2, 0)]], [[(0, 2), (2, 2)]]] ((2, 3), (0, 0))
     = Inr [[[(- 1, - 2), (3, - 2)]], [[(- 1, 4), (3, 4)]]]"
  by (simp add: apply_warp_def torch_cat_def bind_err_def Let_def affine_warp_def com_char_def
        padd_def pmul_def psub_def)

text \<open>
  C8. For a non-empty list of strokes whose trajectories have one length,
  \<open>apply_warp\<close> returns every point \<open>p\<close> of every stroke as \<open>A[:2]*p + B[2:]\<close>, where
  \<open>B[2:] = A[2:] - (A[:2]-1)*com\<close> and \<open>com\<close> is the mean of all the points of all the
  strokes. The image of \<open>p\<close> is \<open>com + A[:2]*(p - com) + A[2:]\<close>, so that with a zero
  translation \<open>com\<close> stays where it is.
\<close>

theorem apply_warp_affine:
  assumes "motor_unwarped \<noteq> []"
    and "list_all (\<lambda>t. length t = length (hd (concat motor_unwarped))) (concat motor_unwarped)"
    and "com = com_char (concat motor_unwarped)"
    and "B = (fst A, psub (snd A) (pmul (psub (fst A) (1, 1)) com))"
  shows "apply_warp motor_unwarped A
           = Inr (map (map (map (\<lambda>p. padd (pmul (fst A) p) (snd B)))) motor_unwarped) \<and>
         com = (sum_list (map fst (concat (concat motor_unwarped)))
                  / real (length (concat (concat motor_unwarped))),
                sum_list (map snd (concat (concat motor_unwarped)))
                  / real (length (concat (concat motor_unwarped)))) \<and>
         (\<forall>p. padd (pmul (fst A) p) (snd B) = padd (padd com (pmul (fst A) (psub p com))) (snd A)) \<and>
         (snd A = (0, 0) \<longrightarrow> padd (pmul (fst A) com) (snd B) = com)"
proof -
  have cat: "torch_cat motor_unwarped = Inr (concat motor_unwarped)"
    using assms(1,2) by (simp add: torch_cat_def)
  have w: "apply_warp motor_unwarped A
           = Inr (map (map (map (\<lambda>p. padd (pmul (fst A) p) (snd B)))) motor_unwarped)"
    by (simp add: apply_warp_def cat bind_err_def Let_def affine_warp_def assms(3,4))
  have c: "com = (sum_list (map fst (concat (concat motor_unwarped)))
                  / real (length (concat (concat motor_unwarped))),
                sum_list (map snd (concat (concat motor_unwarped)))
                  / real (length (concat (concat motor_unwarped))))"
    by (simp add: assms(3) com_char_def Let_def)
  have a: "\<forall>p. padd (pmul (fst A) p) (snd B) = padd (padd com (pmul (fst A) (psub p com))) (snd A)"
    by (simp add: assms(4) anchored_at_com)
  have f: "snd A = (0, 0) \<longrightarrow> padd (pmul (fst A) com) (snd B) = com"
    by (simp add: assms(4) com_fixed)
  from w c a f show ?thesis by blast
qed

theorem apply_warp_affine_witness:
  "apply_warp [[[(0, 0), (2, 0)]], [[(0, 2), (2, 2)]]] ((2, 3), (0, 0))
     = Inr [[[(- 1, - 2), (3, - 2)]], [[(- 1, 4), (3, 4)]]] \<and>
   com_char (concat [[[(0, 0), (2, 0)]], [[(0, 2), (2, 2)]]]) = (1, 1) \<and>
   padd (pmul (2, 3) (1, 1)) (psub (0, 0) (pmul (psub (2, 3) (1, 1)) (1, 1))) = (1, 1)"
proof -
  let ?m = "[[[(0, 0), (2, 0)]], [[(0 :: real, 2 :: real), (2, 2)]]]"
  have ne: "?m \<noteq> []" by simp
  have la: "list_all (\<lambda>t. length t = length (hd (concat ?m))) (concat ?m)" by simp
  have com: "(1 :: real, 1 :: real) = com_char (concat ?m)" by (simp add: com_char_def)
  from apply_warp_affine [OF ne la com refl, of "((2, 3), (0, 0))"]
  have "padd (pmul (2, 3) (1, 1)) (psub (0, 0) (pmul (psub (2, 3) (1, 1)) (1, 1))) = (1 :: real, 1 :: real)"
    by (simp add: padd_def pmul_def psub_def)
  with example_warp com show ?thesis by simp
qed

section \<open>Sampling the eval-spot of a \<open>mid\<close> relation\<close>

lemma lp_sub_Fin_torch_log: "lp_sub (Fin a) (torch_log p) \<noteq> NInf"
  by (simp add: torch_log_def)

lemma score_NInf_iff:
  assumes "bspline_gen_s E n 1 = (s, lb, ub)"
  shows "score_eval_spot_token E t d n = NInf \<longleftrightarrow> t < lb \<or> ub < t"
  using assms by (auto simp: score_eval_spot_token_def Let_def lp_sub_Fin_torch_log)

lemma sample_loop_in_bounds_all:
  assumes "sample_loop E d n draws k = Some t"
  shows "\<forall>s lb ub. bspline_gen_s E n 1 = (s, lb, ub) \<longrightarrow> lb \<le> t \<and> t \<le> ub"
proof (rule sample_loop.raw_induct
    [where P = "\<lambda>E d n draws k t. \<forall>s lb ub. bspline_gen_s E n 1 = (s, lb, ub) \<longrightarrow> lb \<le> t \<and> t \<le> ub",
     OF _ assms])
  fix loop :: "env \<Rightarrow> normal \<Rightarrow> nat \<Rightarrow> (nat \<Rightarrow> real) \<Rightarrow> nat \<Rightarrow> real option"
    and E d n draws k t
  assume IH: "\<And>E d n draws k t. loop E d n draws k = Some t \<Longrightarrow>
                \<forall>s lb ub. bspline_gen_s E n 1 = (s, lb, ub) \<longrightarrow> lb \<le> t \<and> t \<le> ub"
    and body: "(let tok = draws k; ll = score_eval_spot_token E tok d n
                in if ll = NInf then loop E d n draws (Suc k) else Some tok) = Some t"
  show "\<forall>s lb ub. bspline_gen_s E n 1 = (s, lb, ub) \<longrightarrow> lb \<le> t \<and> t \<le> ub"
  proof (cases "score_eval_spot_token E (draws k) d n = NInf")
    case True
    with body have "loop E d n draws (Suc k) = Some t" by (simp add: Let_def)
    then show ?thesis by (rule IH)
  next
    case False
    with body have "t = draws k" by (simp add: Let_def)
    with False show ?thesis by (auto simp: score_NInf_iff)
  qed
qed

lemma sample_loop_in_bounds:
  "sample_loop E d n draws k = Some t \<Longrightarrow> bspline_gen_s E n 1 = (s, lb, ub) \<Longrightarrow>
   lb \<le> t \<and> t \<le> ub"
  using sample_loop_in_bounds_all by blast

text \<open>The loop returns the first draw in bounds, if there is one.\<close>

lemma sample_loop_first:
  assumes gen: "bspline_gen_s E n 1 = (s, lb, ub)"
    and inb: "lb \<le> draws (k + j) \<and> draws (k + j) \<le> ub"
    and first: "\<forall>i<j. draws (k + i) < lb \<or> ub < draws (k + i)"
  shows "sample_loop E d n draws k = Some (draws (k + j))"
  using inb first
proof (induction j arbitrary: k)
  case 0
  then have "score_eval_spot_token E (draws k) d n \<noteq> NInf"
    using score_NInf_iff[OF gen, of "draws k" d] by simp
  then show ?case by (subst sample_loop.simps) (simp add: Let_def)
next
  case (Suc j)
  from Suc.prems(2) have "draws (k + 0) < lb \<or> ub < draws (k + 0)" by blast
  then have r: "score_eval_spot_token E (draws k) d n = NInf"
    using score_NInf_iff[OF gen, of "draws k" d] by simp
  have "sample_loop E d n draws (Suc k) = Some (draws (Suc k + j))"
  proof (rule Suc.IH)
    show "lb \<le> draws (Suc k + j) \<and> draws (Suc k + j) \<le> ub" using Suc.prems(1) by simp
    show "\<forall>i<j. draws (Suc k + i) < lb \<or> ub < draws (Suc k + i)"
    proof (intro allI impI)
      fix i assume "i < j"
      then have "Suc i < Suc j" by simp
      with Suc.prems(2) have "draws (k + Suc i) < lb \<or> ub < draws (k + Suc i)" by blast
      then show "draws (Suc k + i) < lb \<or> ub < draws (Suc k + i)" by simp
    qed
  qed
  then show ?case using r by (subst sample_loop.simps) (simp add: Let_def)
qed

lemma sample_loop_returns:
  assumes gen: "bspline_gen_s E n 1 = (s, lb, ub)"
    and ex: "\<exists>k. lb \<le> draws k \<and> draws k \<le> ub"
  shows "sample_loop E d n draws 0 = Some (draws (LEAST k. lb \<le> draws k \<and> draws k \<le> ub))"
proof -
  let ?j = "LEAST k. lb \<le> draws k \<and> draws k \<le> ub"
  have a: "lb \<le> draws (0 + ?j) \<and> draws (0 + ?j) \<le> ub"
    using LeastI_ex[OF ex] by simp
  have b: "\<forall>i<?j. draws (0 + i) < lb \<or> ub < draws (0 + i)"
  proof (intro allI impI)
    fix i assume "i < ?j"
    from not_less_Least[OF this] show "draws (0 + i) < lb \<or> ub < draws (0 + i)" by auto
  qed
  from sample_loop_first[OF gen a b] show ?thesis by simp
qed

lemma example_gen_s: "bspline_gen_s example_env 5 1 = ([2], 2, 6)"
  by (simp add: example_env_def)

lemma example_sample:
  "sample_eval_spot_token example_env d 5 (\<lambda>k. if k = 0 then 9 else 3) = Some 3"
proof -
  have a: "score_eval_spot_token example_env 9 d 5 = NInf"
    by (simp add: score_NInf_iff[OF example_gen_s])
  have b: "score_eval_spot_token example_env 3 d 5 \<noteq> NInf"
    by (simp add: score_NInf_iff[OF example_gen_s])
  have "sample_loop example_env d 5 (\<lambda>k. if k = 0 then 9 else 3) (Suc 0) = Some 3"
    by (subst sample_loop.simps) (simp add: b)
  then have "sample_loop example_env d 5 (\<lambda>k. if k = 0 then 9 else 3) 0 = Some 3"
    by (subst sample_loop.simps) (simp add: a)
  then show ?thesis by (simp add: sample_eval_spot_token_def)
qed

text \<open>
  C4. With \<open>lb\<close> and \<open>ub\<close> the bounds that \<open>bspline_gen_s\<close> gives for \<open>ncpt\<close>, every
  value that \<open>sample_eval_spot_token\<close> returns has \<open>lb \<le> t \<le> ub\<close>, and every token that
  \<open>sample_token\<close> of a \<open>mid\<close> relation returns carries such a value. The loop returns
  as soon as a draw is in bounds: its result is the first such draw.
\<close>

theorem sample_eval_spot_token_in_bounds:
  assumes gen: "bspline_gen_s E n 1 = (s, lb, ub)"
    and r: "r = RelationAttachAlong ''mid'' ix subix eval_spot n sigma_attach cov"
  shows "(\<forall>t. sample_eval_spot_token E d n draws = Some t \<longrightarrow> lb \<le> t \<and> t \<le> ub) \<and>
         (\<forall>res. sample_token E r draws = Some res \<longrightarrow>
            (\<exists>t. res = Inr (RelationToken r (Some t)) \<and> lb \<le> t \<and> t \<le> ub)) \<and>
         ((\<exists>k. lb \<le> draws k \<and> draws k \<le> ub) \<longrightarrow>
            sample_eval_spot_token E d n draws
              = Some (draws (LEAST k. lb \<le> draws k \<and> draws k \<le> ub)))"
proof (intro conjI allI impI)
  fix t assume "sample_eval_spot_token E d n draws = Some t"
  then show "lb \<le> t" "t \<le> ub"
    using sample_loop_in_bounds[OF _ gen] by (auto simp: sample_eval_spot_token_def)
next
  fix res assume "sample_token E r draws = Some res"
  then obtain t where t: "sample_loop E (Normal E eval_spot sigma_attach) n draws 0 = Some t"
    and res: "res = RelationToken_init r [(''eval_spot_token'', t)]"
    by (auto simp: sample_token_def r sample_eval_spot_token_def split: option.splits)
  have "res = Inr (RelationToken r (Some t))"
    unfolding res by (simp add: RelationToken_init_def r)
  with sample_loop_in_bounds[OF t gen]
  show "\<exists>t. res = Inr (RelationToken r (Some t)) \<and> lb \<le> t \<and> t \<le> ub" by blast
next
  assume "\<exists>k. lb \<le> draws k \<and> draws k \<le> ub"
  from sample_loop_returns[OF gen this]
  show "sample_eval_spot_token E d n draws = Some (draws (LEAST k. lb \<le> draws k \<and> draws k \<le> ub))"
    by (simp add: sample_eval_spot_token_def)
qed

theorem sample_eval_spot_token_in_bounds_witness:
  "sample_eval_spot_token example_env (Normal example_env 4 1) 5 (\<lambda>k. if k = 0 then 9 else 3) = Some 3 \<and>
   (2 :: real) \<le> 3 \<and> (3 :: real) \<le> 6"
proof -
  let ?draws = "\<lambda>k::nat. if k = 0 then 9 else (3::real)"
  let ?d = "Normal example_env 4 1"
  have e: "sample_eval_spot_token example_env ?d 5 ?draws = Some 3"
    by (rule example_sample)
  have "\<forall>t. sample_eval_spot_token example_env ?d 5 ?draws = Some t \<longrightarrow> 2 \<le> t \<and> t \<le> 6"
    using sample_eval_spot_token_in_bounds [OF example_gen_s refl, of ?d ?draws]
    by (rule conjunct1)
  with e have "(2 :: real) \<le> 3 \<and> (3 :: real) \<le> 6" by blast
  with e show ?thesis by blast
qed

section \<open>Scoring the eval-spot of a \<open>mid\<close> relation\<close>

lemma example_cdf_mass:
  "cdf (Normal example_env 4 1) 6 - cdf (Normal example_env 4 1) 2 = 1"
  by (simp add: example_env_def)

text \<open>
  C5. For a \<open>mid\<close> relation and a token with eval-spot \<open>t\<close>, \<open>score_token\<close> raises
  nothing: it returns \<open>-inf\<close> when \<open>t\<close> is outside \<open>[lb, ub]\<close>, and otherwise the
  log-density of \<open>t\<close> under \<open>Normal(eval_spot, sigma_attach)\<close> minus the logarithm of
  \<open>cdf(ub) - cdf(lb)\<close>, which is a real number when that mass is positive.
\<close>

theorem score_token_mid:
  assumes gen: "bspline_gen_s E n 1 = (s, lb, ub)"
    and r: "r = RelationAttachAlong c ix subix eval_spot n sigma_attach cov"
    and tok: "eval_spot_token token = Some t"
    and d: "d = Normal E eval_spot sigma_attach"
  shows "(t < lb \<or> ub < t \<longrightarrow> score_token E r token = Inr NInf) \<and>
         (lb \<le> t \<and> t \<le> ub \<longrightarrow>
            score_token E r token
              = Inr (lp_sub (Fin (log_prob d t)) (torch_log (cdf d ub - cdf d lb)))) \<and>
         (lb \<le> t \<and> t \<le> ub \<and> cdf d lb < cdf d ub \<longrightarrow>
            score_token E r token = Inr (Fin (log_prob d t - ln (cdf d ub - cdf d lb))))"
  using gen tok
  by (auto simp: score_token_def r d score_eval_spot_token_def Let_def torch_log_def)

theorem score_token_mid_witness:
  "score_token example_env (RelationAttachAlong ''mid'' 0 0 4 5 1 (1, 1))
       (RelationToken (RelationAttachAlong ''mid'' 0 0 4 5 1 (1, 1)) (Some 9)) = Inr NInf \<and>
   score_token example_env (RelationAttachAlong ''mid'' 0 0 4 5 1 (1, 1))
       (RelationToken (RelationAttachAlong ''mid'' 0 0 4 5 1 (1, 1)) (Some 3))
     = Inr (Fin (log_prob (Normal example_env 4 1) 3))"
proof -
  let ?r = "RelationAttachAlong ''mid'' 0 0 4 5 1 (1, 1)"
  have t9: "eval_spot_token (RelationToken ?r (Some 9)) = Some 9"
    and t3: "eval_spot_token (RelationToken ?r (Some 3)) = Some 3" by simp_all
  have r: "?r = RelationAttachAlong ''mid'' 0 0 4 5 1 (1, 1)" by (rule refl)
  have "(9 :: real) < 2 \<or> (6 :: real) < 9" by simp
  with score_token_mid [OF example_gen_s r t9 refl]
  have a: "score_token example_env ?r (RelationToken ?r (Some 9)) = Inr NInf" by blast
  have lt: "cdf (Normal example_env 4 1) 2 < cdf (Normal example_env 4 1) 6"
    by (simp add: example_env_def)
  then have c: "(2 :: real) \<le> 3 \<and> (3 :: real) \<le> 6 \<and>
      cdf (Normal example_env 4 1) 2 < cdf (Normal example_env 4 1) 6" by simp
  from score_token_mid [OF example_gen_s r t3 refl] c
  have "score_token example_env ?r (RelationToken ?r (Some 3))
     = Inr (Fin (log_prob (Normal example_env 4 1) 3 -
          ln (cdf (Normal example_env 4 1) 6 - cdf (Normal example_env 4 1) 2)))"
    by blast
  then have b: "score_token example_env ?r (RelationToken ?r (Some 3))
     = Inr (Fin (log_prob (Normal example_env 4 1) 3))"
    by (simp only: example_cdf_mass ln_one diff_zero)
  from a b show ?thesis by blast
qed

section \<open>What the constructors check\<close>

lemma RelationAttach_init_eq:
  "RelationAttach_init c ix lib =
     (if c \<in> set [''start'', ''end'', ''mid'']
      then Inr (RelationAttach c ix (rel_sigma_x lib, rel_sigma_y lib))
      else Inl AssertionError)"
  by (auto simp: RelationAttach_init_def Relation_init_def bind_err_def categories_allowed_def)

lemma py_index_out: "i < - int (length xs) \<or> int (length xs) \<le> i \<Longrightarrow> py_index xs i = Inl IndexError"
  by (auto simp: py_index_def)

text \<open>
  The attach index is checked nowhere. A \<open>RelationAttach\<close> with attach index 3 is
  constructed, and so is its token, with no stroke to attach to; \<open>get_attach_point\<close>
  on an empty list of parts then raises IndexError, not an assertion; and the index
  \<open>-1\<close> is taken from the end of the list of parts.
\<close>

theorem attach_index_unchecked:
  "RelationAttach_init ''start'' 3 example_lib = Inr (RelationAttach ''start'' 3 (1, 1)) \<and>
   RelationToken_init (RelationAttach ''start'' 3 (1, 1)) [] = Inr (RelationToken (RelationAttach ''start'' 3 (1, 1)) None) \<and>
   get_attach_point example_env (RelationToken (RelationAttach ''start'' 3 (1, 1)) None) [] = Inl IndexError \<and>
   get_attach_point example_env (RelationToken (RelationAttach ''start'' (- 1) (1, 1)) None)
     [\<lparr>part_motor = [[(0, 0), (1, 1)]], part_motor_spline = [[(0, 0), (1, 1)]]\<rparr>] = Inr (0, 0)"
  by (simp add: RelationAttach_init_eq example_lib_def RelationToken_init_def get_attach_point_def
        py_index_def bind_err_def)

text \<open>
  C6, amended. \<open>RelationToken\<close> fails with an assertion on keyword arguments that do
  not fit the category of the relation, and \<open>RelationAttach\<close> on a category other than
  \<open>start\<close>, \<open>end\<close> and \<open>mid\<close>; with one of these it is constructed whatever the attach
  index. \<open>get_attach_point\<close> raises IndexError on an attach index outside
  \<open>[-len(prev_parts), len(prev_parts))\<close>.
\<close>

theorem relation_contracts:
  "(category r \<in> set [''unihist'', ''start'', ''end''] \<and> kwargs \<noteq> [] \<longrightarrow>
      RelationToken_init r kwargs = Inl AssertionError) \<and>
   (category r \<notin> set [''unihist'', ''start'', ''end''] \<and> set (map fst kwargs) \<noteq> {''eval_spot_token''} \<longrightarrow>
      RelationToken_init r kwargs = Inl AssertionError) \<and>
   (c \<notin> set [''start'', ''end'', ''mid''] \<longrightarrow> RelationAttach_init c ix lib = Inl AssertionError) \<and>
   (c \<in> set [''start'', ''end'', ''mid''] \<longrightarrow>
      RelationAttach_init c ix lib = Inr (RelationAttach c ix (rel_sigma_x lib, rel_sigma_y lib))) \<and>
   (category (rel tok) \<noteq> ''unihist'' \<and> attach_ix (rel tok) = Some jx \<and>
    (jx < - int (length prev_parts) \<or> int (length prev_parts) \<le> jx) \<longrightarrow>
      get_attach_point E tok prev_parts = Inl IndexError)"
  by (auto simp: RelationToken_init_def RelationAttach_init_eq get_attach_point_def py_index_out bind_err_def)

theorem relation_contracts_witness:
  "RelationToken_init (RelationAttach ''start'' 0 (1, 1)) [(''eval_spot_token'', 3)] = Inl AssertionError \<and>
   RelationToken_init (RelationAttachAlong ''mid'' 0 0 4 5 1 (1, 1)) [] = Inl AssertionError \<and>
   RelationAttach_init ''unihist'' 0 example_lib = Inl AssertionError \<and>
   RelationAttach_init ''end'' 7 example_lib = Inr (RelationAttach ''end'' 7 (1, 1)) \<and>
   get_attach_point example_env (RelationToken (RelationAttach ''end'' 7 (1, 1)) None)
     [\<lparr>part_motor = [[(0, 0), (1, 1)]], part_motor_spline = [[(0, 0), (1, 1)]]\<rparr>] = Inl IndexError"
  using relation_contracts [of "RelationAttach ''start'' 0 (1, 1)" "[(''eval_spot_token'', 3)]"
          "''unihist''" 0 example_lib]
        relation_contracts [of "RelationAttachAlong ''mid'' 0 0 4 5 1 (1, 1)" "[]"
          "''end''" 7 example_lib "RelationToken (RelationAttach ''end'' 7 (1, 1)) None" 7
          "[\<lparr>part_motor = [[(0, 0), (1, 1)]], part_motor_spline = [[(0, 0), (1, 1)]]\<rparr>]" example_env]
  by (simp add: example_lib_def)

end
